theory Spec2Isabelle
  imports Main "HOL-Library.AList"
begin

section \<open>Values of the script and of the player state\<close>

text \<open>
  The engine of \<^verbatim>\<open>text-adventure-engine/scripts/engine.py\<close> reads a script that
  was parsed from JSON, and keeps requirement and effect sets as the parsed dictionaries
  (\<^verbatim>\<open>Dict[str, Any]\<close>). A parsed value is \<^verbatim>\<open>None\<close>, a \<^verbatim>\<open>bool\<close>, an \<^verbatim>\<open>int\<close>,
  a \<^verbatim>\<open>str\<close>, a \<^verbatim>\<open>list\<close> or a \<^verbatim>\<open>dict\<close> with string keys, in insertion order.
  Floating-point numbers are left out of the model: every numeric field of the engine is
  declared \<^verbatim>\<open>int\<close>.
\<close>

datatype json =
    JNull
  | JBool bool
  | JInt int
  | JStr string
  | JList "json list"
  | JObj "(string \<times> json) list"

text \<open>
  The exceptions the engine's own statements and the library calls in them can raise
  (\<^verbatim>\<open>OSError\<close> stands for its subclasses too). \<open>Untyped\<close> is not a Python
  exception: it marks the one place (\<^verbatim>\<open>GameState.from_dict\<close>) where Python goes on
  with a field value outside the type the dataclass declares for it, which the typed
  player state below cannot hold.
\<close>

datatype pyerror =
    TypeError | ValueError | AttributeError | NameError | KeyError | OSError | RecursionError
  | Untyped

type_synonym pydict = "(string \<times> json) list"

text \<open>
  Python's \<^verbatim>\<open>==\<close> on parsed values. A \<^verbatim>\<open>bool\<close> is an \<^verbatim>\<open>int\<close>
  (\<^verbatim>\<open>True == 1\<close>), lists compare element by element, and dictionaries compare as
  mappings: the same number of keys, and every key of the left one bound to an equal
  value in the right one.
\<close>

function py_eq :: "json \<Rightarrow> json \<Rightarrow> bool"
  and py_eq_list :: "json list \<Rightarrow> json list \<Rightarrow> bool"
  and py_eq_items :: "pydict \<Rightarrow> pydict \<Rightarrow> bool"
  and py_eq_lookup :: "string \<Rightarrow> json \<Rightarrow> pydict \<Rightarrow> bool"
where
  "py_eq JNull w = (w = JNull)"
| "py_eq (JBool a) w =
     (case w of JBool b \<Rightarrow> a = b | JInt j \<Rightarrow> (if a then 1 else 0) = j | _ \<Rightarrow> False)"
| "py_eq (JInt i) w =
     (case w of JBool b \<Rightarrow> i = (if b then 1 else 0) | JInt j \<Rightarrow> i = j | _ \<Rightarrow> False)"
| "py_eq (JStr a) w = (w = JStr a)"
| "py_eq (JList xs) w = (case w of JList ys \<Rightarrow> py_eq_list xs ys | _ \<Rightarrow> False)"
| "py_eq (JObj a) w =
     (case w of JObj b \<Rightarrow> length a = length b \<and> py_eq_items a b | _ \<Rightarrow> False)"
| "py_eq_list [] ys = (ys = [])"
| "py_eq_list (x # xs) ys =
     (case ys of [] \<Rightarrow> False | y # ys' \<Rightarrow> py_eq x y \<and> py_eq_list xs ys')"
| "py_eq_items [] b = True"
| "py_eq_items (kv # a) b = (py_eq_lookup (fst kv) (snd kv) b \<and> py_eq_items a b)"
| "py_eq_lookup k v [] = False"
| "py_eq_lookup k v (kw # b) =
     (if k = fst kw then py_eq v (snd kw) else py_eq_lookup k v b)"
  by pat_completeness auto

termination py_eq
proof -
  have sz: "size_list (\<lambda>p. Suc (size (snd p))) a = size_list (size_prod (\<lambda>x. 0) size) a"
    for a :: pydict
    by (induction a) auto
  show ?thesis
    by (relation "measure (\<lambda>x. case x of
        Inl (Inl (v, w)) \<Rightarrow> size v + size w
      | Inl (Inr (xs, ys)) \<Rightarrow> size_list size xs + size_list size ys
      | Inr (Inl (a, b)) \<Rightarrow>
          size_list (\<lambda>p. Suc (size (snd p))) a + size_list (\<lambda>p. Suc (size (snd p))) b
      | Inr (Inr (k, v, b)) \<Rightarrow> size v + size_list (\<lambda>p. Suc (size (snd p))) b)")
      (auto simp: sz)
qed

text \<open>\<^verbatim>\<open>x in xs\<close> and \<^verbatim>\<open>xs.remove(x)\<close> on a list: both compare with \<^verbatim>\<open>==\<close>.\<close>

definition py_in :: "json \<Rightarrow> json list \<Rightarrow> bool" where
  "py_in x xs = list_ex (py_eq x) xs"

fun py_remove :: "json \<Rightarrow> json list \<Rightarrow> json list" where
  "py_remove x [] = []"
| "py_remove x (y # ys) = (if py_eq x y then ys else y # py_remove x ys)"

text \<open>
  Iterating over a value (\<^verbatim>\<open>for item in v\<close>, \<^verbatim>\<open>a, b = v\<close>): a list gives its
  elements, a string its characters as one-character strings, a dictionary its keys;
  \<^verbatim>\<open>None\<close>, booleans and integers raise \<^verbatim>\<open>TypeError\<close>.
\<close>

fun py_iter :: "json \<Rightarrow> pyerror + json list" where
  "py_iter (JList xs) = Inr xs"
| "py_iter (JStr cs) = Inr (map (\<lambda>c. JStr [c]) cs)"
| "py_iter (JObj kvs) = Inr (map (\<lambda>kv. JStr (fst kv)) kvs)"
| "py_iter JNull = Inl TypeError"
| "py_iter (JBool b) = Inl TypeError"
| "py_iter (JInt i) = Inl TypeError"

text \<open>
  The tuple assignment \<^verbatim>\<open>a, b = v\<close>: \<^verbatim>\<open>TypeError\<close> when \<^verbatim>\<open>v\<close> cannot be
  iterated, \<^verbatim>\<open>ValueError\<close> when it does not have exactly two elements.
\<close>

definition py_unpack2 :: "json \<Rightarrow> pyerror + (json \<times> json)" where
  "py_unpack2 v =
     (case py_iter v of
        Inl e \<Rightarrow> Inl e
      | Inr xs \<Rightarrow> (case xs of [a, b] \<Rightarrow> Inr (a, b) | _ \<Rightarrow> Inl ValueError))"

text \<open>
  A value as an operand of \<^verbatim>\<open>+\<close> or \<^verbatim>\<open><\<close> with an \<^verbatim>\<open>int\<close>: integers and
  booleans (\<^verbatim>\<open>True\<close> is 1) are numbers, everything else raises \<^verbatim>\<open>TypeError\<close>.
\<close>

fun py_num :: "json \<Rightarrow> int option" where
  "py_num (JInt i) = Some i"
| "py_num (JBool b) = Some (if b then 1 else 0)"
| "py_num JNull = None"
| "py_num (JStr cs) = None"
| "py_num (JList xs) = None"
| "py_num (JObj kvs) = None"

text \<open>
  A value as a dictionary key (\<^verbatim>\<open>d.get(v)\<close>, \<^verbatim>\<open>v in d\<close>): lists and dictionaries
  are unhashable and raise \<^verbatim>\<open>TypeError\<close>. The dictionaries of the player state
  have string keys only, so a hashable key that is not a string is never found.
\<close>

fun py_key :: "json \<Rightarrow> pyerror + string option" where
  "py_key (JStr k) = Inr (Some k)"
| "py_key JNull = Inr None"
| "py_key (JBool b) = Inr None"
| "py_key (JInt i) = Inr None"
| "py_key (JList xs) = Inl TypeError"
| "py_key (JObj kvs) = Inl TypeError"

definition dict_contains :: "(string \<times> 'v) list \<Rightarrow> json \<Rightarrow> pyerror + bool" where
  "dict_contains d v =
     (case py_key v of
        Inl e \<Rightarrow> Inl e
      | Inr None \<Rightarrow> Inr False
      | Inr (Some k) \<Rightarrow> Inr (map_of d k \<noteq> None))"

definition dict_get :: "(string \<times> 'v) list \<Rightarrow> json \<Rightarrow> 'v \<Rightarrow> pyerror + 'v" where
  "dict_get d v dflt =
     (case py_key v of
        Inl e \<Rightarrow> Inl e
      | Inr None \<Rightarrow> Inr dflt
      | Inr (Some k) \<Rightarrow> Inr (case map_of d k of None \<Rightarrow> dflt | Some x \<Rightarrow> x))"

section \<open>The player state and the script model\<close>

text \<open>
  The dataclass \<^verbatim>\<open>GameState\<close>. The field \<^verbatim>\<open>size\<close> is \<open>size_stat\<close> here. Items and
  achievements are whatever value an effect set names, so they are parsed values; the
  dictionaries keep Python's insertion order.
\<close>

record game_state =
  current_scene :: string
  hp :: int
  morality :: int
  size_stat :: int
  knowledge :: int
  gold :: int
  inventory :: "json list"
  achievements :: "json list"
  flags :: pydict
  history :: "string list"
  stats :: "(string \<times> int) list"

definition initial_state :: game_state where
  "initial_state =
     \<lparr>current_scene = ''start'', hp = 100, morality = 50, size_stat = 100, knowledge = 0,
      gold = 0, inventory = [], achievements = [], flags = [], history = [], stats = []\<rparr>"

text \<open>The dataclasses \<^verbatim>\<open>Choice\<close> and \<^verbatim>\<open>Scene\<close>, with the field types they declare
  (\<^verbatim>\<open>Choice.text\<close> is \<open>choice_text\<close>, \<^verbatim>\<open>Scene.id\<close> is \<open>scene_id\<close>).\<close>

record choice =
  choice_text :: string
  next_scene :: string
  requirements :: "pydict option"
  effects :: "pydict option"
  morality_change :: "int option"
  knowledge_gain :: "int option"
  gold_change :: "int option"
  hp_change :: "int option"

record scene =
  scene_id :: string
  title :: string
  description :: string
  choices :: "choice list"
  image_prompt :: "string option"
  music :: "string option"
  narrator :: "string option"
  on_enter :: "pydict option"

text \<open>
  An entry of the script's \<^verbatim>\<open>endings\<close> list, read by \<^verbatim>\<open>get_ending\<close> through
  \<^verbatim>\<open>ending.get("requirements")\<close> and \<^verbatim>\<open>e.get("tier")\<close>.
\<close>

record ending =
  ending_title :: string
  ending_description :: string
  ending_requirements :: "pydict option"
  tier :: "string option"

text \<open>
  What the engine object holds besides the player state: \<^verbatim>\<open>self.scenes\<close>, the
  script's endings, \<^verbatim>\<open>self.game_info\<close>, the \<^verbatim>\<open>knowledge_milestones\<close> of
  \<^verbatim>\<open>self.config\<close> and the \<^verbatim>\<open>save_dir\<close> it was created with. A milestone's threshold is the key as \<^verbatim>\<open>int(threshold)\<close> reads it,
  \<open>None\<close> when \<^verbatim>\<open>int\<close> raises \<^verbatim>\<open>ValueError\<close> on it. No callback is registered:
  the hooks are notifications to the user interface and are not part of the engine's
  own logic.
\<close>

record engine =
  scenes :: "(string \<times> scene) list"
  endings :: "ending list"
  game_info :: pydict
  knowledge_milestones :: "(int option \<times> json) list"
  save_dir :: string


section \<open>The requirement evaluator\<close>

text \<open>
  \<^verbatim>\<open>_check_requirements\<close> is a sequence of guarded \<^verbatim>\<open>return False\<close> statements.
  Each guard is a check with three outcomes: \<open>Inr True\<close> (go on to the next statement),
  \<open>Inr False\<close> (the method returns \<^verbatim>\<open>False\<close>) and \<open>Inl e\<close> (the statement raises).
\<close>

fun run_checks :: "(pyerror + bool) list \<Rightarrow> pyerror + bool" where
  "run_checks [] = Inr True"
| "run_checks (c # cs) =
     (case c of
        Inl e \<Rightarrow> Inl e
      | Inr ok \<Rightarrow> (if ok then run_checks cs else Inr False))"

definition req_has_item :: "pydict \<Rightarrow> game_state \<Rightarrow> pyerror + bool" where
  "req_has_item r s =
     (case map_of r ''has_item'' of
        None \<Rightarrow> Inr True
      | Some v \<Rightarrow> Inr (py_in v (inventory s)))"

definition req_has_any_item :: "pydict \<Rightarrow> game_state \<Rightarrow> pyerror + bool" where
  "req_has_any_item r s =
     (case map_of r ''has_any_item'' of
        None \<Rightarrow> Inr True
      | Some v \<Rightarrow>
          (case py_iter v of
             Inl e \<Rightarrow> Inl e
           | Inr items \<Rightarrow> Inr (list_ex (\<lambda>item. py_in item (inventory s)) items)))"

definition req_has_all_items :: "pydict \<Rightarrow> game_state \<Rightarrow> pyerror + bool" where
  "req_has_all_items r s =
     (case map_of r ''has_all_items'' of
        None \<Rightarrow> Inr True
      | Some v \<Rightarrow>
          (case py_iter v of
             Inl e \<Rightarrow> Inl e
           | Inr items \<Rightarrow> Inr (list_all (\<lambda>item. py_in item (inventory s)) items)))"

text \<open>
  \<^verbatim>\<open>flag_name, flag_value = requirements["flag"]\<close>, then
  \<^verbatim>\<open>self.state.flags.get(flag_name) != flag_value\<close>: a missing flag reads as \<^verbatim>\<open>None\<close>.
\<close>

definition req_flag :: "pydict \<Rightarrow> game_state \<Rightarrow> pyerror + bool" where
  "req_flag r s =
     (case map_of r ''flag'' of
        None \<Rightarrow> Inr True
      | Some v \<Rightarrow>
          (case py_unpack2 v of
             Inl e \<Rightarrow> Inl e
           | Inr (flag_name, flag_value) \<Rightarrow>
               (case dict_get (flags s) flag_name JNull of
                  Inl e \<Rightarrow> Inl e
                | Inr x \<Rightarrow> Inr (py_eq x flag_value))))"

definition req_flag_set :: "pydict \<Rightarrow> game_state \<Rightarrow> pyerror + bool" where
  "req_flag_set r s =
     (case map_of r ''flag_set'' of
        None \<Rightarrow> Inr True
      | Some v \<Rightarrow> dict_contains (flags s) v)"

definition req_flag_not_set :: "pydict \<Rightarrow> game_state \<Rightarrow> pyerror + bool" where
  "req_flag_not_set r s =
     (case map_of r ''flag_not_set'' of
        None \<Rightarrow> Inr True
      | Some v \<Rightarrow>
          (case dict_contains (flags s) v of
             Inl e \<Rightarrow> Inl e
           | Inr b \<Rightarrow> Inr (\<not> b)))"

text \<open>\<^verbatim>\<open>getattr(self.state, stat)\<close> for the five names the loop runs over.\<close>

definition getattr_stat :: "game_state \<Rightarrow> string \<Rightarrow> int" where
  "getattr_stat s stat =
     (if stat = ''morality'' then morality s
      else if stat = ''size'' then size_stat s
      else if stat = ''hp'' then hp s
      else if stat = ''knowledge'' then knowledge s
      else gold s)"

definition req_stat_lower :: "pydict \<Rightarrow> game_state \<Rightarrow> string \<Rightarrow> pyerror + bool" where
  "req_stat_lower r s stat =
     (case map_of r (stat @ ''_min'') of
        None \<Rightarrow> Inr True
      | Some v \<Rightarrow>
          (case py_num v of
             None \<Rightarrow> Inl TypeError
           | Some bound \<Rightarrow> Inr (\<not> getattr_stat s stat < bound)))"

definition req_stat_upper :: "pydict \<Rightarrow> game_state \<Rightarrow> string \<Rightarrow> pyerror + bool" where
  "req_stat_upper r s stat =
     (case map_of r (stat @ ''_max'') of
        None \<Rightarrow> Inr True
      | Some v \<Rightarrow>
          (case py_num v of
             None \<Rightarrow> Inl TypeError
           | Some bound \<Rightarrow> Inr (\<not> getattr_stat s stat > bound)))"

definition stat_names :: "string list" where
  "stat_names = [''morality'', ''size'', ''hp'', ''knowledge'', ''gold'']"

definition req_stat_ranges :: "pydict \<Rightarrow> game_state \<Rightarrow> (pyerror + bool) list" where
  "req_stat_ranges r s =
     concat (map (\<lambda>stat. [req_stat_lower r s stat, req_stat_upper r s stat]) stat_names)"

definition req_stat_min :: "pydict \<Rightarrow> game_state \<Rightarrow> pyerror + bool" where
  "req_stat_min r s =
     (case map_of r ''stat_min'' of
        None \<Rightarrow> Inr True
      | Some v \<Rightarrow>
          (case py_unpack2 v of
             Inl e \<Rightarrow> Inl e
           | Inr (stat_name, min_value) \<Rightarrow>
               (case dict_get (stats s) stat_name 0 of
                  Inl e \<Rightarrow> Inl e
                | Inr x \<Rightarrow>
                    (case py_num min_value of
                       None \<Rightarrow> Inl TypeError
                     | Some bound \<Rightarrow> Inr (\<not> x < bound)))))"

definition req_has_achievement :: "pydict \<Rightarrow> game_state \<Rightarrow> pyerror + bool" where
  "req_has_achievement r s =
     (case map_of r ''has_achievement'' of
        None \<Rightarrow> Inr True
      | Some v \<Rightarrow> Inr (py_in v (achievements s)))"

text \<open>
  \<^verbatim>\<open>if not any(req in h for h in self.state.history): return False\<close>. The name
  \<^verbatim>\<open>req\<close> is bound nowhere (no local, no global of the module, no builtin), so the
  generator raises \<^verbatim>\<open>NameError\<close> at its first element; over an empty history it has no
  element, \<^verbatim>\<open>any\<close> is \<^verbatim>\<open>False\<close> and the method returns \<^verbatim>\<open>False\<close>.
\<close>

definition req_visited_scene :: "pydict \<Rightarrow> game_state \<Rightarrow> pyerror + bool" where
  "req_visited_scene r s =
     (case map_of r ''visited_scene'' of
        None \<Rightarrow> Inr True
      | Some v \<Rightarrow> (if history s = [] then Inr False else Inl NameError))"

definition check_requirements :: "pydict option \<Rightarrow> game_state \<Rightarrow> pyerror + bool" where
  "check_requirements reqs s =
     (case reqs of
        None \<Rightarrow> Inr True
      | Some r \<Rightarrow>
          (if r = [] then Inr True
           else run_checks
             ([req_has_item r s, req_has_any_item r s, req_has_all_items r s,
               req_flag r s, req_flag_set r s, req_flag_not_set r s]
              @ req_stat_ranges r s
              @ [req_stat_min r s, req_has_achievement r s, req_visited_scene r s])))"

section \<open>The effect applicator\<close>

text \<open>
  \<^verbatim>\<open>_apply_effects\<close> mutates \<^verbatim>\<open>self.state\<close> statement by statement. A step takes
  the state and returns the state it leaves behind, with the exception it raised, if
  any: what was written before a raise stays written.
\<close>

type_synonym step = "game_state \<Rightarrow> pyerror option \<times> game_state"

fun run_steps :: "step list \<Rightarrow> step" where
  "run_steps [] s = (None, s)"
| "run_steps (f # fs) s =
     (case f s of
        (Some e, s') \<Rightarrow> (Some e, s')
      | (None, s') \<Rightarrow> run_steps fs s')"

definition clamp100 :: "int \<Rightarrow> int" where
  "clamp100 x = max 0 (min 100 x)"

definition add_to_inventory :: "json \<Rightarrow> game_state \<Rightarrow> game_state" where
  "add_to_inventory item s =
     (if py_in item (inventory s) then s else s\<lparr>inventory := inventory s @ [item]\<rparr>)"

definition eff_add_item :: "pydict \<Rightarrow> step" where
  "eff_add_item eff s =
     (case map_of eff ''add_item'' of
        None \<Rightarrow> (None, s)
      | Some item \<Rightarrow> (None, add_to_inventory item s))"

definition eff_add_items :: "pydict \<Rightarrow> step" where
  "eff_add_items eff s =
     (case map_of eff ''add_items'' of
        None \<Rightarrow> (None, s)
      | Some v \<Rightarrow>
          (case py_iter v of
             Inl e \<Rightarrow> (Some e, s)
           | Inr items \<Rightarrow> (None, fold add_to_inventory items s)))"

definition eff_remove_item :: "pydict \<Rightarrow> step" where
  "eff_remove_item eff s =
     (case map_of eff ''remove_item'' of
        None \<Rightarrow> (None, s)
      | Some item \<Rightarrow>
          (None, if py_in item (inventory s)
                 then s\<lparr>inventory := py_remove item (inventory s)\<rparr> else s))"

definition eff_hp_change :: "pydict \<Rightarrow> step" where
  "eff_hp_change eff s =
     (case map_of eff ''hp_change'' of
        None \<Rightarrow> (None, s)
      | Some v \<Rightarrow>
          (case py_num v of
             None \<Rightarrow> (Some TypeError, s)
           | Some d \<Rightarrow> (None, s\<lparr>hp := clamp100 (hp s + d)\<rparr>)))"

definition eff_morality_change :: "pydict \<Rightarrow> step" where
  "eff_morality_change eff s =
     (case map_of eff ''morality_change'' of
        None \<Rightarrow> (None, s)
      | Some v \<Rightarrow>
          (case py_num v of
             None \<Rightarrow> (Some TypeError, s)
           | Some d \<Rightarrow> (None, s\<lparr>morality := clamp100 (morality s + d)\<rparr>)))"

definition eff_size_change :: "pydict \<Rightarrow> step" where
  "eff_size_change eff s =
     (case map_of eff ''size_change'' of
        None \<Rightarrow> (None, s)
      | Some v \<Rightarrow>
          (case py_num v of
             None \<Rightarrow> (Some TypeError, s)
           | Some d \<Rightarrow> (None, s\<lparr>size_stat := clamp100 (size_stat s + d)\<rparr>)))"

definition eff_gold_change :: "pydict \<Rightarrow> step" where
  "eff_gold_change eff s =
     (case map_of eff ''gold_change'' of
        None \<Rightarrow> (None, s)
      | Some v \<Rightarrow>
          (case py_num v of
             None \<Rightarrow> (Some TypeError, s)
           | Some d \<Rightarrow> (None, s\<lparr>gold := max 0 (gold s + d)\<rparr>)))"

text \<open>
  \<^verbatim>\<open>_check_knowledge_achievements\<close>: every milestone's threshold is converted by
  \<^verbatim>\<open>int\<close> before it is compared, so a threshold \<^verbatim>\<open>int\<close> rejects raises when the loop
  reaches it.
\<close>

fun award_milestones :: "(int option \<times> json) list \<Rightarrow> step" where
  "award_milestones [] s = (None, s)"
| "award_milestones (m # ms) s =
     (case fst m of
        None \<Rightarrow> (Some ValueError, s)
      | Some threshold \<Rightarrow>
          award_milestones ms
            (if knowledge s \<ge> threshold \<and> \<not> py_in (snd m) (achievements s)
             then s\<lparr>achievements := achievements s @ [snd m]\<rparr> else s))"

definition check_knowledge_achievements :: "engine \<Rightarrow> step" where
  "check_knowledge_achievements E s = award_milestones (knowledge_milestones E) s"

definition eff_knowledge_gain :: "engine \<Rightarrow> pydict \<Rightarrow> step" where
  "eff_knowledge_gain E eff s =
     (case map_of eff ''knowledge_gain'' of
        None \<Rightarrow> (None, s)
      | Some v \<Rightarrow>
          (case py_num v of
             None \<Rightarrow> (Some TypeError, s)
           | Some d \<Rightarrow> check_knowledge_achievements E (s\<lparr>knowledge := knowledge s + d\<rparr>)))"

text \<open>
  \<^verbatim>\<open>for stat, value in effects["stat_change"].items()\<close>: a value that is not a
  dictionary has no \<^verbatim>\<open>items\<close> (\<^verbatim>\<open>AttributeError\<close>); an entry whose value is not a
  number raises \<^verbatim>\<open>TypeError\<close> after the entries before it were added.
\<close>

fun change_stats :: "pydict \<Rightarrow> step" where
  "change_stats [] s = (None, s)"
| "change_stats (kv # kvs) s =
     (case py_num (snd kv) of
        None \<Rightarrow> (Some TypeError, s)
      | Some d \<Rightarrow>
          change_stats kvs
            (s\<lparr>stats := AList.update (fst kv)
                  ((case map_of (stats s) (fst kv) of None \<Rightarrow> 0 | Some x \<Rightarrow> x) + d)
                  (stats s)\<rparr>))"

definition eff_stat_change :: "pydict \<Rightarrow> step" where
  "eff_stat_change eff s =
     (case map_of eff ''stat_change'' of
        None \<Rightarrow> (None, s)
      | Some v \<Rightarrow>
          (case v of
             JObj kvs \<Rightarrow> change_stats kvs s
           | _ \<Rightarrow> (Some AttributeError, s)))"

definition eff_set_flag :: "pydict \<Rightarrow> step" where
  "eff_set_flag eff s =
     (case map_of eff ''set_flag'' of
        None \<Rightarrow> (None, s)
      | Some v \<Rightarrow>
          (case v of
             JObj kvs \<Rightarrow>
               (None, s\<lparr>flags := fold (\<lambda>kv. AList.update (fst kv) (snd kv)) kvs (flags s)\<rparr>)
           | _ \<Rightarrow> (Some AttributeError, s)))"

definition eff_clear_flag :: "pydict \<Rightarrow> step" where
  "eff_clear_flag eff s =
     (case map_of eff ''clear_flag'' of
        None \<Rightarrow> (None, s)
      | Some v \<Rightarrow>
          (case py_key v of
             Inl e \<Rightarrow> (Some e, s)
           | Inr None \<Rightarrow> (None, s)
           | Inr (Some k) \<Rightarrow>
               (None, if map_of (flags s) k \<noteq> None
                      then s\<lparr>flags := AList.delete k (flags s)\<rparr> else s)))"

definition eff_add_achievement :: "pydict \<Rightarrow> step" where
  "eff_add_achievement eff s =
     (case map_of eff ''add_achievement'' of
        None \<Rightarrow> (None, s)
      | Some a \<Rightarrow>
          (None, if py_in a (achievements s) then s
                 else s\<lparr>achievements := achievements s @ [a]\<rparr>))"

definition eff_game_over :: "pydict \<Rightarrow> step" where
  "eff_game_over eff s =
     (case map_of eff ''game_over'' of
        None \<Rightarrow> (None, s)
      | Some v \<Rightarrow> (None, s\<lparr>current_scene := ''game_over''\<rparr>))"

definition eff_victory :: "pydict \<Rightarrow> step" where
  "eff_victory eff s =
     (case map_of eff ''victory'' of
        None \<Rightarrow> (None, s)
      | Some v \<Rightarrow> (None, s\<lparr>current_scene := ''victory''\<rparr>))"

definition effect_steps :: "engine \<Rightarrow> pydict \<Rightarrow> step list" where
  "effect_steps E eff =
     [eff_add_item eff, eff_add_items eff, eff_remove_item eff,
      eff_hp_change eff, eff_morality_change eff, eff_size_change eff,
      eff_gold_change eff, eff_knowledge_gain E eff,
      eff_stat_change eff,
      eff_set_flag eff, eff_clear_flag eff,
      eff_add_achievement eff,
      eff_game_over eff, eff_victory eff]"

definition apply_effects :: "engine \<Rightarrow> pydict \<Rightarrow> step" where
  "apply_effects E eff s = run_steps (effect_steps E eff) s"

section \<open>The transition engine\<close>

definition get_current_scene :: "engine \<Rightarrow> game_state \<Rightarrow> scene option" where
  "get_current_scene E s = map_of (scenes E) (current_scene s)"

fun filter_available :: "choice list \<Rightarrow> game_state \<Rightarrow> pyerror + choice list" where
  "filter_available [] s = Inr []"
| "filter_available (c # cs) s =
     (case check_requirements (requirements c) s of
        Inl e \<Rightarrow> Inl e
      | Inr ok \<Rightarrow>
          (case filter_available cs s of
             Inl e \<Rightarrow> Inl e
           | Inr rest \<Rightarrow> Inr (if ok then c # rest else rest)))"

definition get_available_choices :: "engine \<Rightarrow> game_state \<Rightarrow> pyerror + choice list" where
  "get_available_choices E s =
     (case get_current_scene E s of
        None \<Rightarrow> Inr []
      | Some sc \<Rightarrow> filter_available (choices sc) s)"

text \<open>The statements of \<^verbatim>\<open>make_choice\<close> after the choice is picked, as steps.\<close>

definition record_history :: "choice \<Rightarrow> step" where
  "record_history c s =
     (None, s\<lparr>history := history s @ [current_scene s @ '':'' @ choice_text c]\<rparr>)"

definition choice_effects :: "engine \<Rightarrow> choice \<Rightarrow> step" where
  "choice_effects E c s =
     (case effects c of
        None \<Rightarrow> (None, s)
      | Some eff \<Rightarrow> (if eff = [] then (None, s) else apply_effects E eff s))"

definition direct_morality :: "choice \<Rightarrow> step" where
  "direct_morality c s =
     (case morality_change c of
        None \<Rightarrow> (None, s)
      | Some d \<Rightarrow> (None, s\<lparr>morality := clamp100 (morality s + d)\<rparr>))"

definition direct_knowledge :: "engine \<Rightarrow> choice \<Rightarrow> step" where
  "direct_knowledge E c s =
     (case knowledge_gain c of
        None \<Rightarrow> (None, s)
      | Some d \<Rightarrow> check_knowledge_achievements E (s\<lparr>knowledge := knowledge s + d\<rparr>))"

definition direct_gold :: "choice \<Rightarrow> step" where
  "direct_gold c s =
     (case gold_change c of
        None \<Rightarrow> (None, s)
      | Some d \<Rightarrow> (None, s\<lparr>gold := max 0 (gold s + d)\<rparr>))"

definition direct_hp :: "choice \<Rightarrow> step" where
  "direct_hp c s =
     (case hp_change c of
        None \<Rightarrow> (None, s)
      | Some d \<Rightarrow> (None, s\<lparr>hp := clamp100 (hp s + d)\<rparr>))"

definition move_to_next :: "choice \<Rightarrow> step" where
  "move_to_next c s = (None, s\<lparr>current_scene := next_scene c\<rparr>)"

definition enter_scene :: "engine \<Rightarrow> step" where
  "enter_scene E s =
     (case get_current_scene E s of
        None \<Rightarrow> (None, s)
      | Some sc \<Rightarrow>
          (case on_enter sc of
             None \<Rightarrow> (None, s)
           | Some eff \<Rightarrow> (if eff = [] then (None, s) else apply_effects E eff s)))"

definition choice_steps :: "engine \<Rightarrow> choice \<Rightarrow> step list" where
  "choice_steps E c =
     [record_history c, choice_effects E c,
      direct_morality c, direct_knowledge E c, direct_gold c, direct_hp c,
      move_to_next c, enter_scene E]"

text \<open>
  \<^verbatim>\<open>make_choice\<close>: the returned boolean, or the exception that left the method, and
  the player state afterwards.
\<close>

definition make_choice :: "engine \<Rightarrow> int \<Rightarrow> game_state \<Rightarrow> (pyerror + bool) \<times> game_state" where
  "make_choice E choice_index s =
     (case get_available_choices E s of
        Inl e \<Rightarrow> (Inl e, s)
      | Inr cs \<Rightarrow>
          (if choice_index < 0 \<or> choice_index \<ge> int (length cs) then (Inr False, s)
           else
             (case run_steps (choice_steps E (cs ! nat choice_index)) s of
                (Some e, s') \<Rightarrow> (Inl e, s')
              | (None, s') \<Rightarrow> (Inr True, s'))))"

subsection \<open>Rendering\<close>






subsection \<open>Ending resolution\<close>




section \<open>The persistence layer\<close>














section \<open>A small script\<close>

text \<open>
  A two-scene script on which the theorems below are run: taking the key adds it to the
  inventory (and names \<^verbatim>\<open>game_over\<close> in its effect set), and the door, which needs
  the key, leads to a hall whose \<^verbatim>\<open>on_enter\<close> effects declare victory.
\<close>

definition demo_take :: choice where
  "demo_take =
     \<lparr>choice_text = ''take the key'', next_scene = ''start'', requirements = None,
      effects = Some [(''add_item'', JStr ''key''), (''game_over'', JBool True)],
      morality_change = Some 10, knowledge_gain = Some 10, gold_change = None,
      hp_change = Some (- 20)\<rparr>"

definition demo_door :: choice where
  "demo_door =
     \<lparr>choice_text = ''open the door'', next_scene = ''hall'',
      requirements = Some [(''has_item'', JStr ''key'')],
      effects = None, morality_change = None, knowledge_gain = None, gold_change = None,
      hp_change = None\<rparr>"

definition demo_start :: scene where
  "demo_start =
     \<lparr>scene_id = ''start'', title = ''A locked door'', description = ''A key lies here.'',
      choices = [demo_take, demo_door], image_prompt = None, music = Some ''mystery'',
      narrator = None, on_enter = None\<rparr>"

definition demo_hall :: scene where
  "demo_hall =
     \<lparr>scene_id = ''hall'', title = ''The hall'', description = ''You are through.'',
      choices = [], image_prompt = None, music = None, narrator = None,
      on_enter = Some [(''victory'', JBool True)]\<rparr>"

definition demo_plain_ending :: ending where
  "demo_plain_ending =
     \<lparr>ending_title = ''An ordinary end'', ending_description = ''Nothing special.'',
      ending_requirements = None, tier = Some ''neutral''\<rparr>"

definition demo_key_ending :: ending where
  "demo_key_ending =
     \<lparr>ending_title = ''The key keeper'', ending_description = ''You kept the key.'',
      ending_requirements = Some [(''has_item'', JStr ''key'')], tier = None\<rparr>"

definition demo_engine :: engine where
  "demo_engine =
     \<lparr>scenes = [(''start'', demo_start), (''hall'', demo_hall)],
      endings = [demo_plain_ending, demo_key_ending],
      game_info = [(''title'', JStr ''Demo'')],
      knowledge_milestones = [(Some 10, JStr ''scholar'')],
      save_dir = ''saves''\<rparr>"

definition demo_state_with_key :: game_state where
  "demo_state_with_key = initial_state\<lparr>inventory := [JStr ''key''], history := [''start:take the key'']\<rparr>"

text \<open>
  A script whose only choice, and whose only ending, carry the requirement set
  \<^verbatim>\<open>{"flag": 5}\<close>: a scalar where the evaluator unpacks a name/value pair.
\<close>

definition demo_guarded_choice :: choice where
  "demo_guarded_choice =
     \<lparr>choice_text = ''go on'', next_scene = ''hall'',
      requirements = Some [(''flag'', JInt 5)],
      effects = None, morality_change = None, knowledge_gain = None, gold_change = None,
      hp_change = None\<rparr>"

definition demo_guarded_scene :: scene where
  "demo_guarded_scene =
     \<lparr>scene_id = ''start'', title = ''A gate'', description = ''The gate is shut.'',
      choices = [demo_guarded_choice], image_prompt = None, music = None,
      narrator = None, on_enter = None\<rparr>"

definition demo_guarded_ending :: ending where
  "demo_guarded_ending =
     \<lparr>ending_title = ''Beyond the gate'', ending_description = ''You went through.'',
      ending_requirements = Some [(''flag'', JInt 5)], tier = Some ''neutral''\<rparr>"

definition demo_guarded_engine :: engine where
  "demo_guarded_engine =
     \<lparr>scenes = [(''start'', demo_guarded_scene)],
      endings = [demo_guarded_ending],
      game_info = [],
      knowledge_milestones = [],
      save_dir = ''saves''\<rparr>"

text \<open>The keys \<^verbatim>\<open>_check_requirements\<close> looks up, in the order it looks them up.\<close>

definition recognized_keys :: "string list" where
  "recognized_keys =
     [''has_item'', ''has_any_item'', ''has_all_items'',
      ''flag'', ''flag_set'', ''flag_not_set'',
      ''morality_min'', ''morality_max'', ''size_min'', ''size_max'', ''hp_min'', ''hp_max'',
      ''knowledge_min'', ''knowledge_max'', ''gold_min'', ''gold_max'',
      ''stat_min'', ''has_achievement'', ''visited_scene'']"

section \<open>Notions the properties are stated with\<close>

text \<open>
  The ranges the player state documents for its clamped statistics: \<^verbatim>\<open>hp\<close>,
  \<^verbatim>\<open>morality\<close> and \<^verbatim>\<open>size\<close> between 0 and 100, \<^verbatim>\<open>gold\<close> not negative.
\<close>

definition stats_in_range :: "game_state \<Rightarrow> bool" where
  "stats_in_range s =
     (0 \<le> hp s \<and> hp s \<le> 100 \<and> 0 \<le> morality s \<and> morality s \<le> 100
      \<and> 0 \<le> size_stat s \<and> size_stat s \<le> 100 \<and> 0 \<le> gold s)"

text \<open>
  The keys \<^verbatim>\<open>_apply_effects\<close> looks up, in the order of its statements, and the
  part of an effect set whose keys come before a given key in that order.
\<close>

definition effect_order :: "string list" where
  "effect_order =
     [''add_item'', ''add_items'', ''remove_item'',
      ''hp_change'', ''morality_change'', ''size_change'', ''gold_change'',
      ''knowledge_gain'', ''stat_change'', ''set_flag'', ''clear_flag'',
      ''add_achievement'', ''game_over'', ''victory'']"

definition effects_before :: "string \<Rightarrow> pydict \<Rightarrow> pydict" where
  "effects_before k eff =
     filter (\<lambda>kv. fst kv \<in> set (takeWhile (\<lambda>k'. k' \<noteq> k) effect_order)) eff"

text \<open>
  The exception the statement of an effect key raises on a value of the wrong shape,
  before it has written anything: \<^verbatim>\<open>add_items\<close> on a value that cannot be iterated,
  the five stat deltas on a value that is not a number, \<^verbatim>\<open>stat_change\<close> and
  \<^verbatim>\<open>set_flag\<close> on a value without \<^verbatim>\<open>items\<close>, \<^verbatim>\<open>clear_flag\<close> on an unhashable
  value. The other keys take any value.
\<close>

definition malformed_value :: "string \<Rightarrow> json \<Rightarrow> pyerror option" where
  "malformed_value k v =
     (if k = ''add_items'' then
        (case py_iter v of Inl e \<Rightarrow> Some e | Inr items \<Rightarrow> None)
      else if k = ''hp_change'' \<or> k = ''morality_change'' \<or> k = ''size_change''
              \<or> k = ''gold_change'' \<or> k = ''knowledge_gain'' then
        (case py_num v of None \<Rightarrow> Some TypeError | Some d \<Rightarrow> None)
      else if k = ''stat_change'' \<or> k = ''set_flag'' then
        (case v of JObj kvs \<Rightarrow> None | _ \<Rightarrow> Some AttributeError)
      else if k = ''clear_flag'' then
        (case py_key v of Inl e \<Rightarrow> Some e | Inr key \<Rightarrow> None)
      else None)"

text \<open>
  The entries of a \<^verbatim>\<open>stat_change\<close> mapping that are added before the loop over its
  items meets a value that is not a number.
\<close>

definition numeric_entries :: "pydict \<Rightarrow> pydict" where
  "numeric_entries kvs = takeWhile (\<lambda>kv. py_num (snd kv) \<noteq> None) kvs"

text \<open>Sublists of the statements of \<^verbatim>\<open>_apply_effects\<close> and \<^verbatim>\<open>make_choice\<close>.\<close>

definition steps_before_knowledge :: "pydict \<Rightarrow> step list" where
  "steps_before_knowledge eff =
     [eff_add_item eff, eff_add_items eff, eff_remove_item eff,
      eff_hp_change eff, eff_morality_change eff, eff_size_change eff,
      eff_gold_change eff]"

definition steps_after_knowledge :: "pydict \<Rightarrow> step list" where
  "steps_after_knowledge eff =
     [eff_stat_change eff, eff_set_flag eff, eff_clear_flag eff,
      eff_add_achievement eff, eff_game_over eff, eff_victory eff]"

definition steps_before_jumps :: "engine \<Rightarrow> pydict \<Rightarrow> step list" where
  "steps_before_jumps E eff =
     [eff_add_item eff, eff_add_items eff, eff_remove_item eff,
      eff_hp_change eff, eff_morality_change eff, eff_size_change eff,
      eff_gold_change eff, eff_knowledge_gain E eff,
      eff_stat_change eff,
      eff_set_flag eff, eff_clear_flag eff,
      eff_add_achievement eff]"

definition steps_before_move :: "engine \<Rightarrow> choice \<Rightarrow> step list" where
  "steps_before_move E c =
     [record_history c, choice_effects E c,
      direct_morality c, direct_knowledge E c, direct_gold c, direct_hp c]"

text \<open>
  The scene a transition ends in, as a function of the script and of the chosen
  choice's \<^verbatim>\<open>next_scene\<close> alone: the destination, unless the destination scene's
  \<^verbatim>\<open>on_enter\<close> effects name \<^verbatim>\<open>victory\<close> or \<^verbatim>\<open>game_over\<close>.
\<close>

definition scene_after :: "engine \<Rightarrow> string \<Rightarrow> string" where
  "scene_after E nxt =
     (case map_of (scenes E) nxt of
        None \<Rightarrow> nxt
      | Some sc \<Rightarrow>
          (case on_enter sc of
             None \<Rightarrow> nxt
           | Some eff \<Rightarrow>
               (if map_of eff ''victory'' \<noteq> None then ''victory''
                else if map_of eff ''game_over'' \<noteq> None then ''game_over''
                else nxt)))"

section \<open>Running a list of statements\<close>

lemmas eff_defs = eff_add_item_def eff_add_items_def eff_remove_item_def eff_hp_change_def
  eff_morality_change_def eff_size_change_def eff_gold_change_def eff_knowledge_gain_def
  check_knowledge_achievements_def eff_stat_change_def eff_set_flag_def eff_clear_flag_def
  eff_add_achievement_def eff_game_over_def eff_victory_def

lemma run_steps_append:
  "run_steps (fs @ gs) s =
     (case run_steps fs s of (Some e, s') \<Rightarrow> (Some e, s') | (None, s') \<Rightarrow> run_steps gs s')"
  by (induction fs arbitrary: s) (auto split: prod.splits option.splits)

text \<open>
  What every statement of a list keeps, the list keeps, whether it runs to its end or
  stops at a raise.
\<close>

lemma run_steps_invariant:
  assumes "\<And>f t. f \<in> set fs \<Longrightarrow> P t \<Longrightarrow> P (snd (f t))" and "P s"
  shows "P (snd (run_steps fs s))"
  using assms
proof (induction fs arbitrary: s)
  case Nil
  then show ?case by simp
next
  case (Cons f fs)
  have first: "P (snd (f s))" using Cons.prems by simp
  have "P (snd (run_steps fs (snd (f s))))"
    using Cons.IH [of "snd (f s)"] Cons.prems first by simp
  with first show ?case by (auto split: prod.splits option.splits)
qed

lemma run_steps_noop:
  assumes "\<forall>f \<in> set fs. \<forall>t. f t = (None, t)"
  shows "run_steps fs s = (None, s)"
  using assms by (induction fs arbitrary: s) simp_all

lemma fold_add_to_inventory_keeps:
  "hp (fold add_to_inventory items s) = hp s"
  "morality (fold add_to_inventory items s) = morality s"
  "size_stat (fold add_to_inventory items s) = size_stat s"
  "gold (fold add_to_inventory items s) = gold s"
  "knowledge (fold add_to_inventory items s) = knowledge s"
  "current_scene (fold add_to_inventory items s) = current_scene s"
  by (induction items arbitrary: s) (simp_all add: add_to_inventory_def)

lemma award_milestones_keeps:
  "hp (snd (award_milestones ms s)) = hp s"
  "morality (snd (award_milestones ms s)) = morality s"
  "size_stat (snd (award_milestones ms s)) = size_stat s"
  "gold (snd (award_milestones ms s)) = gold s"
  "knowledge (snd (award_milestones ms s)) = knowledge s"
  "current_scene (snd (award_milestones ms s)) = current_scene s"
  by (induction ms arbitrary: s) (simp_all split: option.splits)

lemma change_stats_keeps:
  "hp (snd (change_stats kvs s)) = hp s"
  "morality (snd (change_stats kvs s)) = morality s"
  "size_stat (snd (change_stats kvs s)) = size_stat s"
  "gold (snd (change_stats kvs s)) = gold s"
  "knowledge (snd (change_stats kvs s)) = knowledge s"
  "current_scene (snd (change_stats kvs s)) = current_scene s"
  by (induction kvs arbitrary: s) (simp_all split: option.splits)

lemmas keeps = fold_add_to_inventory_keeps award_milestones_keeps change_stats_keeps

section \<open>Properties of the effect applicator\<close>

subsection \<open>Ranges of the statistics\<close>

lemma step_keeps_range:
  assumes "f \<in> set (effect_steps E eff)" and "stats_in_range t"
  shows "stats_in_range (snd (f t))"
  using assms
  by (auto simp: effect_steps_def eff_defs add_to_inventory_def keeps stats_in_range_def
      clamp100_def split: option.splits sum.splits json.splits)

lemma apply_effects_range:
  "stats_in_range s \<Longrightarrow> stats_in_range (snd (apply_effects E eff s))"
  unfolding apply_effects_def
  by (rule run_steps_invariant [where P = stats_in_range]) (simp_all add: step_keeps_range)

lemma knowledge_kept_before:
  "knowledge (snd (run_steps (steps_before_knowledge eff) s)) = knowledge s"
  by (rule run_steps_invariant [where P = "\<lambda>t. knowledge t = knowledge s"])
     (auto simp: steps_before_knowledge_def eff_defs add_to_inventory_def keeps
        split: option.splits sum.splits)

lemma knowledge_kept_after:
  "knowledge (snd (run_steps (steps_after_knowledge eff) s)) = knowledge s"
  by (rule run_steps_invariant [where P = "\<lambda>t. knowledge t = knowledge s"])
     (auto simp: steps_after_knowledge_def eff_defs keeps
        split: option.splits sum.splits json.splits)

lemma knowledge_step:
  "knowledge (snd (eff_knowledge_gain E eff s)) =
     (case map_of eff ''knowledge_gain'' of
        None \<Rightarrow> knowledge s
      | Some v \<Rightarrow> (case py_num v of None \<Rightarrow> knowledge s | Some d \<Rightarrow> knowledge s + d))"
  by (simp add: eff_knowledge_gain_def check_knowledge_achievements_def keeps
      split: option.splits)

text \<open>
  Knowledge after \<^verbatim>\<open>_apply_effects\<close> is the knowledge before, or the knowledge before
  plus the \<^verbatim>\<open>knowledge_gain\<close> of the set: nothing floors it.
\<close>

lemma apply_effects_knowledge:
  "knowledge (snd (apply_effects E eff s)) = knowledge s
   \<or> (\<exists>v d. map_of eff ''knowledge_gain'' = Some v \<and> py_num v = Some d
          \<and> knowledge (snd (apply_effects E eff s)) = knowledge s + d)"
proof -
  have split: "effect_steps E eff =
      steps_before_knowledge eff @ [eff_knowledge_gain E eff] @ steps_after_knowledge eff"
    by (simp add: effect_steps_def steps_before_knowledge_def steps_after_knowledge_def)
  obtain r1 s1 where a: "run_steps (steps_before_knowledge eff) s = (r1, s1)"
    by (cases "run_steps (steps_before_knowledge eff) s")
  obtain r2 s2 where b: "eff_knowledge_gain E eff s1 = (r2, s2)"
    by (cases "eff_knowledge_gain E eff s1")
  obtain r3 s3 where c: "run_steps (steps_after_knowledge eff) s2 = (r3, s3)"
    by (cases "run_steps (steps_after_knowledge eff) s2")
  have k1: "knowledge s1 = knowledge s"
    using knowledge_kept_before [of eff s] a by simp
  have k2: "knowledge s2 =
     (case map_of eff ''knowledge_gain'' of
        None \<Rightarrow> knowledge s
      | Some v \<Rightarrow> (case py_num v of None \<Rightarrow> knowledge s | Some d \<Rightarrow> knowledge s + d))"
    using knowledge_step [of E eff s1] b k1 by (simp split: option.splits)
  have k3: "knowledge s3 = knowledge s2"
    using knowledge_kept_after [of eff s2] c by simp
  have "snd (apply_effects E eff s) = s1 \<or> snd (apply_effects E eff s) = s2
        \<or> snd (apply_effects E eff s) = s3"
    unfolding apply_effects_def split run_steps_append a
    by (cases r1; cases r2) (simp_all add: b c)
  then show ?thesis using k1 k2 k3
    by (auto split: option.splits)
qed

text \<open>
  Claim C1, as stated, at a concrete input: from the initial state (knowledge 0) the
  effect set \<^verbatim>\<open>{"knowledge_gain": -5}\<close> is applied without any exception and leaves
  knowledge at \<open>-5\<close>, below 0.
\<close>

theorem knowledge_not_floored_counterexample:
  "fst (apply_effects demo_engine [(''knowledge_gain'', JInt (- 5))] initial_state) = None
   \<and> knowledge (snd (apply_effects demo_engine [(''knowledge_gain'', JInt (- 5))]
        initial_state)) = - 5"
  by code_simp

text \<open>
  Claim C1, amended. From a player state whose \<^verbatim>\<open>hp\<close>, \<^verbatim>\<open>morality\<close> and
  \<^verbatim>\<open>size\<close> lie in [0,100] and whose \<^verbatim>\<open>gold\<close> and \<^verbatim>\<open>knowledge\<close> are not negative,
  \<^verbatim>\<open>_apply_effects\<close> leaves \<^verbatim>\<open>hp\<close>, \<^verbatim>\<open>morality\<close> and \<^verbatim>\<open>size\<close> in [0,100] and
  \<^verbatim>\<open>gold\<close> not negative, for every effect set and whether it returns or raises.
  Knowledge is not floored: it stays not negative when the knowledge before plus the
  \<^verbatim>\<open>knowledge_gain\<close> delta of the set is not negative.
\<close>

theorem apply_effects_ranges:
  assumes "stats_in_range s" and "0 \<le> knowledge s"
  shows "stats_in_range (snd (apply_effects E eff s))
    \<and> ((\<forall>v d. map_of eff ''knowledge_gain'' = Some v \<and> py_num v = Some d
            \<longrightarrow> 0 \<le> knowledge s + d)
         \<longrightarrow> 0 \<le> knowledge (snd (apply_effects E eff s)))"
  using assms apply_effects_range [of s E eff] apply_effects_knowledge [of E eff s]
  by auto

theorem apply_effects_ranges_witness:
  "stats_in_range (snd (apply_effects demo_engine
      [(''hp_change'', JInt 30), (''gold_change'', JInt (- 7)), (''knowledge_gain'', JInt 4)]
      initial_state))
   \<and> 0 \<le> knowledge (snd (apply_effects demo_engine
      [(''hp_change'', JInt 30), (''gold_change'', JInt (- 7)), (''knowledge_gain'', JInt 4)]
      initial_state))"
proof -
  have r: "stats_in_range initial_state"
    by (simp add: stats_in_range_def initial_state_def)
  have k: "0 \<le> knowledge initial_state"
    by (simp add: initial_state_def)
  show ?thesis
    using apply_effects_ranges [OF r k, of demo_engine
        "[(''hp_change'', JInt 30), (''gold_change'', JInt (- 7)), (''knowledge_gain'', JInt 4)]"]
    by (simp add: initial_state_def)
qed

subsection \<open>A malformed effect\<close>

lemma map_of_filter_fst:
  "map_of (filter (\<lambda>kv. P (fst kv)) eff) k = (if P k then map_of eff k else None)"
  by (induction eff) auto

lemma map_of_effects_before:
  "map_of (effects_before k eff) k' =
     (if k' \<in> set (takeWhile (\<lambda>x. x \<noteq> k) effect_order) then map_of eff k' else None)"
  unfolding effects_before_def by (rule map_of_filter_fst)

lemma raise_at:
  assumes full: "effect_steps E eff = pre @ f # post"
    and same: "effect_steps E eff' = pre @ f' # rest"
    and raise: "\<forall>t. f t = (Some e, h t)"
    and quiet: "\<forall>t. f' t = (None, h t)"
    and noop: "\<forall>g \<in> set rest. \<forall>t. g t = (None, t)"
  shows "apply_effects E eff s =
     (Some (case fst (apply_effects E eff' s) of None \<Rightarrow> e | Some e' \<Rightarrow> e'),
      snd (apply_effects E eff' s))"
proof -
  obtain r t where pre: "run_steps pre s = (r, t)"
    by (cases "run_steps pre s")
  have rest: "run_steps rest u = (None, u)" for u
    using noop by (rule run_steps_noop)
  have a: "apply_effects E eff s = (case r of None \<Rightarrow> (Some e, h t) | Some e' \<Rightarrow> (Some e', t))"
    unfolding apply_effects_def full run_steps_append pre
    using raise by (cases r) simp_all
  have b: "apply_effects E eff' s = (case r of None \<Rightarrow> (None, h t) | Some e' \<Rightarrow> (Some e', t))"
    unfolding apply_effects_def same run_steps_append pre
    using quiet rest by (cases r) simp_all
  show ?thesis by (cases r) (simp_all add: a b)
qed

lemmas before_simps = effect_steps_def eff_defs map_of_effects_before effect_order_def fun_eq_iff

lemma malformed_add_items:
  assumes "map_of eff ''add_items'' = Some v" and "malformed_value ''add_items'' v = Some e"
  shows "apply_effects E eff s =
     (Some (case fst (apply_effects E (effects_before ''add_items'' eff) s) of
              None \<Rightarrow> e | Some e' \<Rightarrow> e'),
      snd (apply_effects E (effects_before ''add_items'' eff) s))"
  using assms
  by (intro raise_at [where pre = "take 1 (effect_steps E eff)"
        and f = "eff_add_items eff" and post = "drop 2 (effect_steps E eff)"
        and f' = "eff_add_items (effects_before ''add_items'' eff)"
        and rest = "drop 2 (effect_steps E (effects_before ''add_items'' eff))"
        and h = "\<lambda>t. t"])
     (auto simp: before_simps malformed_value_def
        split: option.splits sum.splits json.splits)

lemma malformed_hp_change:
  assumes "map_of eff ''hp_change'' = Some v" and "malformed_value ''hp_change'' v = Some e"
  shows "apply_effects E eff s =
     (Some (case fst (apply_effects E (effects_before ''hp_change'' eff) s) of
              None \<Rightarrow> e | Some e' \<Rightarrow> e'),
      snd (apply_effects E (effects_before ''hp_change'' eff) s))"
  using assms
  by (intro raise_at [where pre = "take 3 (effect_steps E eff)"
        and f = "eff_hp_change eff" and post = "drop 4 (effect_steps E eff)"
        and f' = "eff_hp_change (effects_before ''hp_change'' eff)"
        and rest = "drop 4 (effect_steps E (effects_before ''hp_change'' eff))"
        and h = "\<lambda>t. t"])
     (auto simp: before_simps malformed_value_def
        split: option.splits sum.splits json.splits)

lemma malformed_morality_change:
  assumes "map_of eff ''morality_change'' = Some v" and "malformed_value ''morality_change'' v = Some e"
  shows "apply_effects E eff s =
     (Some (case fst (apply_effects E (effects_before ''morality_change'' eff) s) of
              None \<Rightarrow> e | Some e' \<Rightarrow> e'),
      snd (apply_effects E (effects_before ''morality_change'' eff) s))"
  using assms
  by (intro raise_at [where pre = "take 4 (effect_steps E eff)"
        and f = "eff_morality_change eff" and post = "drop 5 (effect_steps E eff)"
        and f' = "eff_morality_change (effects_before ''morality_change'' eff)"
        and rest = "drop 5 (effect_steps E (effects_before ''morality_change'' eff))"
        and h = "\<lambda>t. t"])
     (auto simp: before_simps malformed_value_def
        split: option.splits sum.splits json.splits)

lemma malformed_size_change:
  assumes "map_of eff ''size_change'' = Some v" and "malformed_value ''size_change'' v = Some e"
  shows "apply_effects E eff s =
     (Some (case fst (apply_effects E (effects_before ''size_change'' eff) s) of
              None \<Rightarrow> e | Some e' \<Rightarrow> e'),
      snd (apply_effects E (effects_before ''size_change'' eff) s))"
  using assms
  by (intro raise_at [where pre = "take 5 (effect_steps E eff)"
        and f = "eff_size_change eff" and post = "drop 6 (effect_steps E eff)"
        and f' = "eff_size_change (effects_before ''size_change'' eff)"
        and rest = "drop 6 (effect_steps E (effects_before ''size_change'' eff))"
        and h = "\<lambda>t. t"])
     (auto simp: before_simps malformed_value_def
        split: option.splits sum.splits json.splits)

lemma malformed_gold_change:
  assumes "map_of eff ''gold_change'' = Some v" and "malformed_value ''gold_change'' v = Some e"
  shows "apply_effects E eff s =
     (Some (case fst (apply_effects E (effects_before ''gold_change'' eff) s) of
              None \<Rightarrow> e | Some e' \<Rightarrow> e'),
      snd (apply_effects E (effects_before ''gold_change'' eff) s))"
  using assms
  by (intro raise_at [where pre = "take 6 (effect_steps E eff)"
        and f = "eff_gold_change eff" and post = "drop 7 (effect_steps E eff)"
        and f' = "eff_gold_change (effects_before ''gold_change'' eff)"
        and rest = "drop 7 (effect_steps E (effects_before ''gold_change'' eff))"
        and h = "\<lambda>t. t"])
     (auto simp: before_simps malformed_value_def
        split: option.splits sum.splits json.splits)

lemma malformed_knowledge_gain:
  assumes "map_of eff ''knowledge_gain'' = Some v" and "malformed_value ''knowledge_gain'' v = Some e"
  shows "apply_effects E eff s =
     (Some (case fst (apply_effects E (effects_before ''knowledge_gain'' eff) s) of
              None \<Rightarrow> e | Some e' \<Rightarrow> e'),
      snd (apply_effects E (effects_before ''knowledge_gain'' eff) s))"
  using assms
  by (intro raise_at [where pre = "take 7 (effect_steps E eff)"
        and f = "eff_knowledge_gain E eff" and post = "drop 8 (effect_steps E eff)"
        and f' = "eff_knowledge_gain E (effects_before ''knowledge_gain'' eff)"
        and rest = "drop 8 (effect_steps E (effects_before ''knowledge_gain'' eff))"
        and h = "\<lambda>t. t"])
     (auto simp: before_simps malformed_value_def
        split: option.splits sum.splits json.splits)

lemma malformed_stat_change:
  assumes "map_of eff ''stat_change'' = Some v" and "malformed_value ''stat_change'' v = Some e"
  shows "apply_effects E eff s =
     (Some (case fst (apply_effects E (effects_before ''stat_change'' eff) s) of
              None \<Rightarrow> e | Some e' \<Rightarrow> e'),
      snd (apply_effects E (effects_before ''stat_change'' eff) s))"
  using assms
  by (intro raise_at [where pre = "take 8 (effect_steps E eff)"
        and f = "eff_stat_change eff" and post = "drop 9 (effect_steps E eff)"
        and f' = "eff_stat_change (effects_before ''stat_change'' eff)"
        and rest = "drop 9 (effect_steps E (effects_before ''stat_change'' eff))"
        and h = "\<lambda>t. t"])
     (auto simp: before_simps malformed_value_def
        split: option.splits sum.splits json.splits)

lemma malformed_set_flag:
  assumes "map_of eff ''set_flag'' = Some v" and "malformed_value ''set_flag'' v = Some e"
  shows "apply_effects E eff s =
     (Some (case fst (apply_effects E (effects_before ''set_flag'' eff) s) of
              None \<Rightarrow> e | Some e' \<Rightarrow> e'),
      snd (apply_effects E (effects_before ''set_flag'' eff) s))"
  using assms
  by (intro raise_at [where pre = "take 9 (effect_steps E eff)"
        and f = "eff_set_flag eff" and post = "drop 10 (effect_steps E eff)"
        and f' = "eff_set_flag (effects_before ''set_flag'' eff)"
        and rest = "drop 10 (effect_steps E (effects_before ''set_flag'' eff))"
        and h = "\<lambda>t. t"])
     (auto simp: before_simps malformed_value_def
        split: option.splits sum.splits json.splits)

lemma malformed_clear_flag:
  assumes "map_of eff ''clear_flag'' = Some v" and "malformed_value ''clear_flag'' v = Some e"
  shows "apply_effects E eff s =
     (Some (case fst (apply_effects E (effects_before ''clear_flag'' eff) s) of
              None \<Rightarrow> e | Some e' \<Rightarrow> e'),
      snd (apply_effects E (effects_before ''clear_flag'' eff) s))"
  using assms
  by (intro raise_at [where pre = "take 10 (effect_steps E eff)"
        and f = "eff_clear_flag eff" and post = "drop 11 (effect_steps E eff)"
        and f' = "eff_clear_flag (effects_before ''clear_flag'' eff)"
        and rest = "drop 11 (effect_steps E (effects_before ''clear_flag'' eff))"
        and h = "\<lambda>t. t"])
     (auto simp: before_simps malformed_value_def
        split: option.splits sum.splits json.splits)

lemma change_stats_numeric_entries:
  "fst (change_stats (numeric_entries kvs) t) = None"
  unfolding numeric_entries_def
  by (induction kvs arbitrary: t) (auto split: option.splits)

lemma change_stats_stops:
  assumes "list_ex (\<lambda>kv. py_num (snd kv) = None) kvs"
  shows "change_stats kvs t = (Some TypeError, snd (change_stats (numeric_entries kvs) t))"
  using assms unfolding numeric_entries_def
  by (induction kvs arbitrary: t) (auto split: option.splits)

lemma malformed_stat_entry:
  assumes "map_of eff ''stat_change'' = Some (JObj kvs)"
    and "list_ex (\<lambda>kv. py_num (snd kv) = None) kvs"
  shows "apply_effects E eff s =
     (Some (case fst (apply_effects E
                (effects_before ''stat_change'' eff
                  @ [(''stat_change'', JObj (numeric_entries kvs))]) s) of
              None \<Rightarrow> TypeError | Some e' \<Rightarrow> e'),
      snd (apply_effects E
             (effects_before ''stat_change'' eff
               @ [(''stat_change'', JObj (numeric_entries kvs))]) s))"
proof -
  let ?eff' = "effects_before ''stat_change'' eff @ [(''stat_change'', JObj (numeric_entries kvs))]"
  let ?h = "\<lambda>t. snd (change_stats (numeric_entries kvs) t)"
  have m: "map_of ?eff' k =
     (if k \<in> set (takeWhile (\<lambda>x. x \<noteq> ''stat_change'') effect_order) then map_of eff k
      else if k = ''stat_change'' then Some (JObj (numeric_entries kvs)) else None)" for k
    by (auto simp: map_of_effects_before map_add_def effect_order_def split: option.splits)
  have full: "effect_steps E eff =
      take 8 (effect_steps E eff) @ eff_stat_change eff # drop 9 (effect_steps E eff)"
    by (simp add: effect_steps_def)
  have same: "effect_steps E ?eff' =
      take 8 (effect_steps E eff) @ eff_stat_change ?eff' # drop 9 (effect_steps E ?eff')"
    by (simp add: effect_steps_def eff_add_item_def eff_add_items_def eff_remove_item_def
        eff_hp_change_def eff_morality_change_def eff_size_change_def eff_gold_change_def
        eff_knowledge_gain_def m effect_order_def fun_eq_iff del: map_of_append)
  have raise: "\<forall>t. eff_stat_change eff t = (Some TypeError, ?h t)"
    by (simp add: eff_stat_change_def assms(1) change_stats_stops [OF assms(2)])
  have quiet: "\<forall>t. eff_stat_change ?eff' t = (None, ?h t)"
    by (simp add: eff_stat_change_def m effect_order_def prod_eq_iff
        change_stats_numeric_entries del: map_of_append)
  have noop: "\<forall>g \<in> set (drop 9 (effect_steps E ?eff')). \<forall>t. g t = (None, t)"
    by (simp add: effect_steps_def eff_set_flag_def eff_clear_flag_def
        eff_add_achievement_def eff_game_over_def eff_victory_def m effect_order_def
        del: map_of_append)
  show ?thesis
    by (rule raise_at [OF full same raise quiet noop])
qed

lemma malformed_any_key:
  assumes "map_of eff k = Some v" and "malformed_value k v = Some e"
  shows "apply_effects E eff s =
        (Some (case fst (apply_effects E (effects_before k eff) s) of
                 None \<Rightarrow> e | Some e' \<Rightarrow> e'),
         snd (apply_effects E (effects_before k eff) s))"
proof -
  from assms(2) have "k = ''add_items'' \<or> k = ''hp_change'' \<or> k = ''morality_change''
      \<or> k = ''size_change'' \<or> k = ''gold_change'' \<or> k = ''knowledge_gain''
      \<or> k = ''stat_change'' \<or> k = ''set_flag'' \<or> k = ''clear_flag''"
    by (auto simp: malformed_value_def split: if_splits)
  then show ?thesis
  proof (elim disjE)
    assume k: "k = ''add_items''"
    show ?thesis using assms unfolding k by (rule malformed_add_items)
  next
    assume k: "k = ''hp_change''"
    show ?thesis using assms unfolding k by (rule malformed_hp_change)
  next
    assume k: "k = ''morality_change''"
    show ?thesis using assms unfolding k by (rule malformed_morality_change)
  next
    assume k: "k = ''size_change''"
    show ?thesis using assms unfolding k by (rule malformed_size_change)
  next
    assume k: "k = ''gold_change''"
    show ?thesis using assms unfolding k by (rule malformed_gold_change)
  next
    assume k: "k = ''knowledge_gain''"
    show ?thesis using assms unfolding k by (rule malformed_knowledge_gain)
  next
    assume k: "k = ''stat_change''"
    show ?thesis using assms unfolding k by (rule malformed_stat_change)
  next
    assume k: "k = ''set_flag''"
    show ?thesis using assms unfolding k by (rule malformed_set_flag)
  next
    assume k: "k = ''clear_flag''"
    show ?thesis using assms unfolding k by (rule malformed_clear_flag)
  qed
qed

text \<open>
  Claim C2, as stated, at a concrete input: the effect set
  \<^verbatim>\<open>{"add_item": "key", "set_flag": 5}\<close> applied to the initial state raises
  \<^verbatim>\<open>AttributeError\<close> and leaves the key in the inventory, so the player state is not
  the one before the call.
\<close>

theorem not_transactional_counterexample:
  "apply_effects demo_engine [(''add_item'', JStr ''key''), (''set_flag'', JInt 5)] initial_state
     = (Some AttributeError, initial_state\<lparr>inventory := [JStr ''key'']\<rparr>)
   \<and> initial_state\<lparr>inventory := [JStr ''key'']\<rparr> \<noteq> initial_state"
  by code_simp

text \<open>
  Claim C2, amended. Effect application is not transactional. When the value of an
  effect key has the wrong shape for its statement, \<^verbatim>\<open>_apply_effects\<close> raises: the
  exception of that statement, or the one an earlier key raised already. The player
  state it leaves is the one that applying the keys before that key in the fixed order
  gives: those effects have taken hold and no later one has. When \<^verbatim>\<open>stat_change\<close> is
  a mapping with an entry that is not a number, it raises \<^verbatim>\<open>TypeError\<close> (or the
  earlier exception), and the entries before the first such entry have been added as
  well.
\<close>

theorem malformed_effect_keeps_earlier_effects:
  "(map_of eff k = Some v \<and> malformed_value k v = Some e \<longrightarrow>
      apply_effects E eff s =
        (Some (case fst (apply_effects E (effects_before k eff) s) of
                 None \<Rightarrow> e | Some e' \<Rightarrow> e'),
         snd (apply_effects E (effects_before k eff) s)))
   \<and> (map_of eff ''stat_change'' = Some (JObj kvs)
        \<and> list_ex (\<lambda>kv. py_num (snd kv) = None) kvs \<longrightarrow>
      apply_effects E eff s =
        (Some (case fst (apply_effects E
                   (effects_before ''stat_change'' eff
                     @ [(''stat_change'', JObj (numeric_entries kvs))]) s) of
                 None \<Rightarrow> TypeError | Some e' \<Rightarrow> e'),
         snd (apply_effects E
                (effects_before ''stat_change'' eff
                  @ [(''stat_change'', JObj (numeric_entries kvs))]) s)))"
proof (intro conjI impI)
  assume h: "map_of eff k = Some v \<and> malformed_value k v = Some e"
  show "apply_effects E eff s =
        (Some (case fst (apply_effects E (effects_before k eff) s) of
                 None \<Rightarrow> e | Some e' \<Rightarrow> e'),
         snd (apply_effects E (effects_before k eff) s))"
    by (rule malformed_any_key [OF h [THEN conjunct1] h [THEN conjunct2]])
next
  assume h: "map_of eff ''stat_change'' = Some (JObj kvs)
        \<and> list_ex (\<lambda>kv. py_num (snd kv) = None) kvs"
  show "apply_effects E eff s =
        (Some (case fst (apply_effects E
                   (effects_before ''stat_change'' eff
                     @ [(''stat_change'', JObj (numeric_entries kvs))]) s) of
                 None \<Rightarrow> TypeError | Some e' \<Rightarrow> e'),
         snd (apply_effects E
                (effects_before ''stat_change'' eff
                  @ [(''stat_change'', JObj (numeric_entries kvs))]) s))"
    by (rule malformed_stat_entry [OF h [THEN conjunct1] h [THEN conjunct2]])
qed

theorem malformed_effect_keeps_earlier_effects_witness:
  "apply_effects demo_engine
      [(''add_item'', JStr ''lamp''), (''hp_change'', JInt (- 5)), (''set_flag'', JStr ''seen'')]
      initial_state
     = (Some AttributeError, initial_state\<lparr>hp := 95, inventory := [JStr ''lamp'']\<rparr>)
   \<and> apply_effects demo_engine
      [(''add_item'', JStr ''lamp''), (''add_items'', JInt 3), (''hp_change'', JInt (- 5))]
      initial_state
     = (Some TypeError, initial_state\<lparr>inventory := [JStr ''lamp'']\<rparr>)
   \<and> apply_effects demo_engine
      [(''add_item'', JStr ''lamp''),
       (''stat_change'', JObj [(''luck'', JInt 1), (''wit'', JStr ''x''), (''pace'', JInt 2)]),
       (''victory'', JBool True)]
      initial_state
     = (Some TypeError, initial_state\<lparr>inventory := [JStr ''lamp''], stats := [(''luck'', 1)]\<rparr>)"
proof -
  let ?eff1 = "[(''add_item'', JStr ''lamp''), (''hp_change'', JInt (- 5)),
      (''set_flag'', JStr ''seen'')]"
  let ?eff2 = "[(''add_item'', JStr ''lamp''), (''add_items'', JInt 3),
      (''hp_change'', JInt (- 5))]"
  let ?kvs = "[(''luck'', JInt 1), (''wit'', JStr ''x''), (''pace'', JInt 2)]"
  let ?eff3 = "[(''add_item'', JStr ''lamp''), (''stat_change'', JObj ?kvs),
      (''victory'', JBool True)]"
  have h1: "map_of ?eff1 ''set_flag'' = Some (JStr ''seen'')
      \<and> malformed_value ''set_flag'' (JStr ''seen'') = Some AttributeError"
    by (simp add: malformed_value_def)
  have p1: "apply_effects demo_engine (effects_before ''set_flag'' ?eff1) initial_state
      = (None, initial_state\<lparr>hp := 95, inventory := [JStr ''lamp'']\<rparr>)"
    by code_simp
  have h2: "map_of ?eff2 ''add_items'' = Some (JInt 3)
      \<and> malformed_value ''add_items'' (JInt 3) = Some TypeError"
    by (simp add: malformed_value_def)
  have p2: "apply_effects demo_engine (effects_before ''add_items'' ?eff2) initial_state
      = (None, initial_state\<lparr>inventory := [JStr ''lamp'']\<rparr>)"
    by code_simp
  have h3: "map_of ?eff3 ''stat_change'' = Some (JObj ?kvs)
      \<and> list_ex (\<lambda>kv. py_num (snd kv) = None) ?kvs"
    by simp
  have p3: "apply_effects demo_engine
        (effects_before ''stat_change'' ?eff3
          @ [(''stat_change'', JObj (numeric_entries ?kvs))]) initial_state
      = (None, initial_state\<lparr>inventory := [JStr ''lamp''], stats := [(''luck'', 1)]\<rparr>)"
    by code_simp
  have c1: "apply_effects demo_engine ?eff1 initial_state
      = (Some AttributeError, initial_state\<lparr>hp := 95, inventory := [JStr ''lamp'']\<rparr>)"
    using malformed_effect_keeps_earlier_effects
        [where eff = ?eff1 and k = "''set_flag''" and v = "JStr ''seen''"
          and e = AttributeError and E = demo_engine and s = initial_state,
          THEN conjunct1, THEN mp, OF h1]
    by (simp add: p1)
  have c2: "apply_effects demo_engine ?eff2 initial_state
      = (Some TypeError, initial_state\<lparr>inventory := [JStr ''lamp'']\<rparr>)"
    using malformed_effect_keeps_earlier_effects
        [where eff = ?eff2 and k = "''add_items''" and v = "JInt 3"
          and e = TypeError and E = demo_engine and s = initial_state,
          THEN conjunct1, THEN mp, OF h2]
    by (simp add: p2)
  have c3: "apply_effects demo_engine ?eff3 initial_state
      = (Some TypeError,
         initial_state\<lparr>inventory := [JStr ''lamp''], stats := [(''luck'', 1)]\<rparr>)"
    using malformed_effect_keeps_earlier_effects
        [where eff = ?eff3 and kvs = ?kvs and E = demo_engine and s = initial_state,
          THEN conjunct2, THEN mp, OF h3]
    by (simp only: p3 fst_conv snd_conv option.case)
  show ?thesis using c1 c2 c3 by (intro conjI)
qed

section \<open>Properties of the requirement evaluator\<close>

lemmas req_defs = req_has_item_def req_has_any_item_def req_has_all_items_def req_flag_def
  req_flag_set_def req_flag_not_set_def req_stat_ranges_def req_stat_lower_def
  req_stat_upper_def stat_names_def req_stat_min_def req_has_achievement_def
  req_visited_scene_def

lemma run_checks_True:
  "run_checks cs = Inr True \<Longrightarrow> c \<in> set cs \<Longrightarrow> c = Inr True"
  by (induction cs) (auto split: sum.splits if_splits)

text \<open>
  Claim C3, as stated, at a concrete input: the requirement set \<^verbatim>\<open>{"flag": 5}\<close>, a
  single scalar in place of the name/value pair, does not evaluate to false in the
  initial state: the evaluation raises \<^verbatim>\<open>TypeError\<close>.
\<close>

theorem scalar_flag_counterexample:
  "check_requirements (Some [(''flag'', JInt 5)]) initial_state = Inl TypeError"
  by code_simp

text \<open>
  Claim C3, amended. A \<^verbatim>\<open>flag\<close> requirement whose value cannot be unpacked into a
  name and a value (a number, a boolean or \<^verbatim>\<open>null\<close>; a string, list or mapping that
  does not have exactly two elements) never makes the requirement set evaluate to
  true, but it is not evaluated to false either: the unpacking raises \<^verbatim>\<open>TypeError\<close>
  or \<^verbatim>\<open>ValueError\<close>, and that exception leaves the evaluator whenever no item
  predicate stands before it in the set.
\<close>

theorem malformed_flag_never_true:
  assumes "map_of r ''flag'' = Some v" and "py_unpack2 v = Inl e"
  shows "check_requirements (Some r) s \<noteq> Inr True
    \<and> (map_of r ''has_item'' = None \<and> map_of r ''has_any_item'' = None
         \<and> map_of r ''has_all_items'' = None
       \<longrightarrow> check_requirements (Some r) s = Inl e)"
proof -
  have ne: "r \<noteq> []" using assms(1) by auto
  have fl: "req_flag r s = Inl e" using assms by (simp add: req_flag_def)
  have "check_requirements (Some r) s \<noteq> Inr True"
  proof
    assume "check_requirements (Some r) s = Inr True"
    then have "run_checks
             ([req_has_item r s, req_has_any_item r s, req_has_all_items r s,
               req_flag r s, req_flag_set r s, req_flag_not_set r s]
              @ req_stat_ranges r s
              @ [req_stat_min r s, req_has_achievement r s, req_visited_scene r s]) = Inr True"
      using ne by (simp add: check_requirements_def)
    from run_checks_True [OF this, of "req_flag r s"] fl show False by simp
  qed
  moreover have "check_requirements (Some r) s = Inl e"
    if "map_of r ''has_item'' = None \<and> map_of r ''has_any_item'' = None
         \<and> map_of r ''has_all_items'' = None"
    using that ne fl
    by (simp add: check_requirements_def req_has_item_def req_has_any_item_def
        req_has_all_items_def)
  ultimately show ?thesis by blast
qed

theorem malformed_flag_never_true_witness:
  "check_requirements (Some [(''hp_min'', JInt 1), (''flag'', JStr ''lit'')]) demo_state_with_key
     \<noteq> Inr True
   \<and> check_requirements (Some [(''hp_min'', JInt 1), (''flag'', JStr ''lit'')])
       demo_state_with_key = Inl ValueError"
proof -
  have h: "map_of [(''hp_min'', JInt 1), (''flag'', JStr ''lit'')] ''flag'' = Some (JStr ''lit'')"
    by simp
  have u: "py_unpack2 (JStr ''lit'') = Inl ValueError"
    by (simp add: py_unpack2_def)
  show ?thesis
    using malformed_flag_never_true [OF h u, of demo_state_with_key] by simp
qed

text \<open>
  Claim C4, on the code: with one entry in the history, a requirement set with
  \<^verbatim>\<open>visited_scene\<close> is not evaluated to true although the entry contains the
  substring: the evaluation raises \<^verbatim>\<open>NameError\<close>, since the comparison reads the
  unbound name \<^verbatim>\<open>req\<close>.
\<close>

theorem visited_scene_raises_NameError:
  "check_requirements (Some [(''visited_scene'', JStr ''start'')]) demo_state_with_key
     = Inl NameError"
  by code_simp

text \<open>
  Claim C5. A requirement set none of whose keys the evaluator recognizes evaluates to
  true in every state: unknown keys are ignored, they raise nothing and they never make a
  choice ineligible.
\<close>

theorem unknown_keys_ignored:
  assumes "\<forall>k \<in> fst ` set r. k \<notin> set recognized_keys"
  shows "check_requirements (Some r) s = Inr True"
proof -
  have "map_of r k = None" if "k \<in> set recognized_keys" for k
    using assms that by (auto simp: map_of_eq_None_iff)
  then show ?thesis
    by (simp add: check_requirements_def recognized_keys_def req_defs)
qed

theorem unknown_keys_ignored_witness:
  "check_requirements (Some [(''weather'', JStr ''rain''), (''hp_minimum'', JInt 500)])
     initial_state = Inr True"
proof -
  have h: "\<forall>k \<in> fst ` set [(''weather'', JStr ''rain''), (''hp_minimum'', JInt 500)].
      k \<notin> set recognized_keys"
    by (simp add: recognized_keys_def)
  show ?thesis
    using unknown_keys_ignored [OF h, of initial_state] by simp
qed

section \<open>Properties of the transition engine\<close>

text \<open>
  Claim C6, as stated, at a concrete input: in a scene whose choice carries the
  requirement set \<^verbatim>\<open>{"flag": 5}\<close>, \<^verbatim>\<open>make_choice(-1)\<close> does not return
  \<^verbatim>\<open>False\<close>: the visible list is computed before the index is looked at, and the
  \<^verbatim>\<open>TypeError\<close> of the evaluator leaves \<^verbatim>\<open>make_choice\<close> as an exception.
\<close>

theorem make_choice_raises_counterexample:
  "make_choice demo_guarded_engine (- 1) initial_state = (Inl TypeError, initial_state)"
  by code_simp

text \<open>
  Claim C6, amended. When the visible choice list of the current state can be computed,
  say \<open>cs\<close>, and the index is negative or at least the length of \<open>cs\<close>,
  \<^verbatim>\<open>make_choice\<close> returns \<^verbatim>\<open>False\<close> as a value and the player state is the one it
  was called in. When computing the visible list raises, \<^verbatim>\<open>make_choice\<close> raises that
  exception for every index, and the player state is again the one it was called in.
\<close>

theorem make_choice_out_of_bounds:
  "(get_available_choices E s = Inr cs
      \<and> (choice_index < 0 \<or> choice_index \<ge> int (length cs))
    \<longrightarrow> make_choice E choice_index s = (Inr False, s))
   \<and> (get_available_choices E s = Inl e
    \<longrightarrow> make_choice E choice_index s = (Inl e, s))"
  by (simp add: make_choice_def)

lemma demo_available_initially:
  "get_available_choices demo_engine initial_state = Inr [demo_take]"
  by code_simp

lemma demo_guarded_raises:
  "get_available_choices demo_guarded_engine initial_state = Inl TypeError"
  by code_simp

theorem make_choice_out_of_bounds_witness:
  "make_choice demo_engine 5 initial_state = (Inr False, initial_state)
   \<and> make_choice demo_engine (- 1) initial_state = (Inr False, initial_state)
   \<and> make_choice demo_guarded_engine 7 initial_state = (Inl TypeError, initial_state)"
proof -
  have above: "(5::int) < 0 \<or> 5 \<ge> int (length [demo_take])" by simp
  have below: "(- 1::int) < 0 \<or> - 1 \<ge> int (length [demo_take])" by simp
  show ?thesis
    using
      make_choice_out_of_bounds
        [where E = demo_engine and s = initial_state and cs = "[demo_take]"
          and choice_index = 5, THEN conjunct1, THEN mp, OF conjI, OF demo_available_initially above]
      make_choice_out_of_bounds
        [where E = demo_engine and s = initial_state and cs = "[demo_take]"
          and choice_index = "- 1", THEN conjunct1, THEN mp, OF conjI,
          OF demo_available_initially below]
      make_choice_out_of_bounds
        [where E = demo_guarded_engine and s = initial_state and e = TypeError
          and choice_index = 7, THEN conjunct2, THEN mp, OF demo_guarded_raises]
    by simp
qed

subsection \<open>The scene after a transition\<close>

lemma effect_steps_split:
  "effect_steps E eff = steps_before_jumps E eff @ [eff_game_over eff, eff_victory eff]"
  by (simp add: effect_steps_def steps_before_jumps_def)

lemma step_keeps_scene:
  assumes "f \<in> set (steps_before_jumps E eff)"
  shows "current_scene (snd (f t)) = current_scene t"
  using assms
  by (auto simp: steps_before_jumps_def eff_defs add_to_inventory_def keeps
      split: option.splits sum.splits json.splits)

lemma steps_before_jumps_scene:
  "current_scene (snd (run_steps (steps_before_jumps E eff) s)) = current_scene s"
  by (rule run_steps_invariant [where P = "\<lambda>t. current_scene t = current_scene s"])
     (simp_all add: step_keeps_scene)

lemma apply_effects_scene:
  assumes "apply_effects E eff s = (None, s')"
  shows "current_scene s' =
     (if map_of eff ''victory'' \<noteq> None then ''victory''
      else if map_of eff ''game_over'' \<noteq> None then ''game_over''
      else current_scene s)"
proof -
  obtain r s1 where pre: "run_steps (steps_before_jumps E eff) s = (r, s1)"
    by (cases "run_steps (steps_before_jumps E eff) s")
  have sc: "current_scene s1 = current_scene s"
    using steps_before_jumps_scene [of E eff s] pre by simp
  from assms pre have "r = None"
    and "run_steps [eff_game_over eff, eff_victory eff] s1 = (None, s')"
    by (auto simp: apply_effects_def effect_steps_split run_steps_append split: option.splits)
  then show ?thesis using sc
    by (auto simp: eff_game_over_def eff_victory_def split: option.splits)
qed

lemma enter_scene_result:
  assumes "enter_scene E s = (None, s')"
  shows "current_scene s' = scene_after E (current_scene s)"
  using assms
  by (auto simp: enter_scene_def scene_after_def get_current_scene_def
      dest!: apply_effects_scene split: option.splits if_splits)

text \<open>
  Claim C10. After a successful \<^verbatim>\<open>make_choice\<close> the current scene is a function of
  the script and of the selected choice's \<^verbatim>\<open>next_scene\<close> only: it is
  \<^verbatim>\<open>next_scene\<close>, unless the \<^verbatim>\<open>on_enter\<close> effects of that scene jump to
  \<^verbatim>\<open>victory\<close> or \<^verbatim>\<open>game_over\<close>. The choice's own effect set does not occur in it:
  a \<^verbatim>\<open>game_over\<close> or \<^verbatim>\<open>victory\<close> it names is overwritten by the assignment of
  \<^verbatim>\<open>next_scene\<close>.
\<close>

theorem scene_after_choice:
  assumes "get_available_choices E s = Inr cs"
    and "0 \<le> choice_index" and "choice_index < int (length cs)"
    and "make_choice E choice_index s = (Inr True, s')"
  shows "current_scene s' = scene_after E (next_scene (cs ! nat choice_index))"
proof -
  let ?c = "cs ! nat choice_index"
  obtain r s1 where pre: "run_steps (steps_before_move E ?c) s = (r, s1)"
    by (cases "run_steps (steps_before_move E ?c) s")
  have split: "choice_steps E ?c = steps_before_move E ?c @ [move_to_next ?c, enter_scene E]"
    by (simp add: choice_steps_def steps_before_move_def)
  from assms have run: "run_steps (choice_steps E ?c) s = (None, s')"
    by (auto simp: make_choice_def split: prod.splits option.splits)
  with pre have "enter_scene E (s1\<lparr>current_scene := next_scene ?c\<rparr>) = (None, s')"
    by (auto simp: split run_steps_append move_to_next_def split: option.splits prod.splits)
  from enter_scene_result [OF this] show ?thesis by simp
qed

lemma demo_take_the_key:
  "make_choice demo_engine 0 initial_state =
     (Inr True,
      initial_state\<lparr>hp := 80, morality := 60, knowledge := 10, inventory := [JStr ''key''],
        achievements := [JStr ''scholar''], history := [''start:take the key'']\<rparr>)"
  by code_simp

theorem scene_after_choice_witness:
  "make_choice demo_engine 0 initial_state =
     (Inr True,
      initial_state\<lparr>hp := 80, morality := 60, knowledge := 10, inventory := [JStr ''key''],
        achievements := [JStr ''scholar''], history := [''start:take the key'']\<rparr>)
   \<and> map_of (the (effects demo_take)) ''game_over'' = Some (JBool True)
   \<and> current_scene
       (initial_state\<lparr>hp := 80, morality := 60, knowledge := 10, inventory := [JStr ''key''],
          achievements := [JStr ''scholar''], history := [''start:take the key'']\<rparr>)
      = ''start''"
proof -
  have lo: "(0::int) \<le> 0" by simp
  have hi: "(0::int) < int (length [demo_take])" by simp
  have after: "scene_after demo_engine (next_scene ([demo_take] ! nat 0)) = ''start''"
    by code_simp
  have jump: "map_of (the (effects demo_take)) ''game_over'' = Some (JBool True)"
    by (simp add: demo_take_def)
  show ?thesis
    using scene_after_choice [OF demo_available_initially lo hi demo_take_the_key]
      demo_take_the_key after jump
    by simp
qed

subsection \<open>Rendering\<close>


subsection \<open>Ending resolution\<close>





section \<open>Properties of the persistence layer\<close>








end
